theory Spec2Isabelle
  imports Complex_Main "HOL-Library.Word"
begin

section \<open>Data model\<close>

text \<open>
  The notebook \<^verbatim>\<open>midi-rnn.ipynb\<close> turns the messages of a MIDI file into rows of five
  unsigned bytes (\<^verbatim>\<open>cur\<close>: a flag, three byte slots, a byte count), expands every row
  to 40 bits, and later packs rows of bits back into bytes to rebuild messages.
  Bytes are \<open>8 word\<close>: \<^verbatim>\<open>cur\<close> is a float array in the source, holding only values from
  0 to 255, which \<^verbatim>\<open>np.asarray(midi_data, dtype='B')\<close> converts exactly. The bits of a row
  are integers (the arrays are \<^verbatim>\<open>int32\<close>). The time of a message and its product with
  \<^verbatim>\<open>ticks_per_beat\<close> are real numbers; what numpy makes of them afterwards (the \<^verbatim>\<open>float32\<close>
  array of times, its mean, the rounding to ticks) is taken as parameters of the model.
\<close>

type_synonym byte = "8 word"

datatype error = ValueError | AxisError | IndexError | NameError | IOError

text \<open>A message as \<^verbatim>\<open>load_midi_file\<close> reads it: \<^verbatim>\<open>x.bytes()\<close> and \<^verbatim>\<open>x.time\<close>.\<close>

record message =
  msg_bytes :: "byte list"
  msg_time :: real

text \<open>
  What \<^verbatim>\<open>mido.MidiFile(filename)\<close> gives the notebook: \<^verbatim>\<open>.type\<close>,
  \<^verbatim>\<open>.ticks_per_beat\<close> and the messages that iterating the file yields.
\<close>

record midi_file =
  file_type :: nat
  ticks_per_beat :: int
  messages :: "message list"

section \<open>Bit expansion: \<^verbatim>\<open>np.unpackbits\<close> and \<^verbatim>\<open>np.packbits\<close>\<close>

definition unpack_byte :: "byte \<Rightarrow> int list" where
  "unpack_byte w = map (\<lambda>i. int (unat w div 2 ^ (7 - i) mod 2)) [0..<8]"

text \<open>\<^verbatim>\<open>np.unpackbits(midi_data, axis=1)\<close> on one row: most significant bit first.\<close>

definition unpackbits_row :: "byte list \<Rightarrow> int list" where
  "unpackbits_row r = concat (map unpack_byte r)"



section \<open>Encoding: \<^verbatim>\<open>load_midi_file\<close>\<close>

definition zeros5 :: "byte list" where
  "zeros5 = replicate 5 0"

text \<open>
  The inner loop \<^verbatim>\<open>for ind,byte in enumerate(x.bytes())\<close>. \<open>L\<close> is
  \<^verbatim>\<open>len(x.bytes())\<close>, \<open>tm\<close> is \<^verbatim>\<open>x.time*midi_file.ticks_per_beat*2\<close>, and the state is
  \<^verbatim>\<open>(cur, midi_data, midi_time)\<close>.
\<close>

fun encode_loop ::
  "nat \<Rightarrow> real \<Rightarrow> nat \<Rightarrow> byte list \<Rightarrow> byte list \<times> byte list list \<times> real list
     \<Rightarrow> byte list \<times> byte list list \<times> real list" where
  "encode_loop L tm ind [] st = st"
| "encode_loop L tm ind (b # bs) (cur, midi_data, midi_time) =
     (let cur1 = (if L > 3 then cur[0 := 1] else cur);
          cur2 = cur1[1 + ind mod 3 := b]
      in if (ind + 1) mod 3 = 0 \<or> ind + 1 = L
         then encode_loop L tm (ind + 1) bs
                (zeros5, midi_data @ [cur2[4 := word_of_nat (ind mod 3 + 1)]], midi_time @ [tm])
         else encode_loop L tm (ind + 1) bs (cur2, midi_data, midi_time))"

text \<open>The body of \<^verbatim>\<open>for x in midi\<close> for one message: the rows and times it appends.\<close>

definition encode_event :: "int \<Rightarrow> message \<Rightarrow> byte list list \<times> real list" where
  "encode_event tpb x =
     snd (encode_loop (length (msg_bytes x)) (msg_time x * of_int tpb * 2) 0 (msg_bytes x)
            (zeros5, [], []))"

fun load_loop :: "int \<Rightarrow> message list \<Rightarrow> byte list list \<times> real list \<Rightarrow> byte list list \<times> real list" where
  "load_loop tpb [] acc = acc"
| "load_loop tpb (x # xs) (midi_data, midi_time) =
     (let (rows, times) = encode_event tpb x
      in load_loop tpb xs (midi_data @ rows, midi_time @ times))"

text \<open>
  \<^verbatim>\<open>load_midi_file\<close> after \<^verbatim>\<open>mido.MidiFile(filename)\<close> has returned. \<^verbatim>\<open>np.max\<close> of an
  empty array raises \<^verbatim>\<open>ValueError\<close>; with no row at all, \<^verbatim>\<open>np.asarray(midi_data)\<close> is
  one-dimensional and \<^verbatim>\<open>np.unpackbits(..., axis=1)\<close> raises \<^verbatim>\<open>AxisError\<close>. The times are
  returned as \<^verbatim>\<open>np.asarray(midi_time).astype(np.float32)\<close>. The loop above carries the
  exact value of \<^verbatim>\<open>x.time*midi_file.ticks_per_beat*2\<close>; \<open>to_float32\<close> stands for what the
  floating-point product and the conversion make of that value, a number of numpy's
  \<^verbatim>\<open>float32\<close> type, which is the type \<open>'t\<close> here. It is a parameter: floating-point
  arithmetic is not part of the notebook.
\<close>

definition load_midi_file ::
  "(real \<Rightarrow> 't) \<Rightarrow> midi_file \<Rightarrow> error + (int list list \<times> 't list)" where
  "load_midi_file to_float32 mf =
     (if messages mf = [] then Inl ValueError
      else let (midi_data, midi_time) = load_loop (ticks_per_beat mf) (messages mf) ([], [])
           in if midi_data = [] then Inl AxisError
              else Inr (map unpackbits_row midi_data, map to_float32 midi_time))"

section \<open>Decoding: \<^verbatim>\<open>create_midi_track\<close>\<close>





subsection \<open>Exact arithmetic for concrete runs\<close>

text \<open>
  For concrete runs the two numeric parameters are instantiated with exact arithmetic. A
  numpy value is \<open>Some\<close> of a real, or \<open>None\<close> when it is not finite (NaN or an
  infinity). The instances agree with numpy wherever every intermediate value is a
  \<^verbatim>\<open>float32\<close> and a \<^verbatim>\<open>float64\<close> number, as at the inputs they are used on below, and
  wherever a value is not finite: a mean with such a value is not finite, and \<^verbatim>\<open>int\<close>
  raises for it, as it does for the mean of no value. \<^verbatim>\<open>np.round\<close> rounds a half to the even
  neighbour.
\<close>

definition np_round :: "real \<Rightarrow> int" where
  "np_round x =
     (let f = \<lfloor>x\<rfloor>; d = x - of_int f
      in if d < 1 / 2 then f else if 1 / 2 < d then f + 1 else if even f then f else f + 1)"


definition exact_float32 :: "real \<Rightarrow> real option" where
  "exact_float32 x = Some x"


subsection \<open>A concrete message parser\<close>



section \<open>Format check: \<^verbatim>\<open>is_midi_0\<close>\<close>

text \<open>
  \<open>MidiFile\<close> stands for \<^verbatim>\<open>mido.MidiFile(filename)\<close>: the parsed file, or the exception it
  raises. The result of \<^verbatim>\<open>is_midi_0\<close> is the value it returns, or \<open>Inl\<close> the exception it
  lets through; the handler \<^verbatim>\<open>except Exception\<close> returns \<^verbatim>\<open>False\<close> for every exception of
  the body.
\<close>

definition is_midi_0 :: "('f \<Rightarrow> error + midi_file) \<Rightarrow> 'f \<Rightarrow> error + bool" where
  "is_midi_0 MidiFile filename =
     (case MidiFile filename of
        Inr mf \<Rightarrow> Inr (file_type mf = 0)
      | Inl e \<Rightarrow> Inr False)"

section \<open>Arrays in memory: \<^verbatim>\<open>extract_samples\<close>\<close>

text \<open>
  \<^verbatim>\<open>extract_samples\<close> slices the stored arrays, copies two of the slices and then writes
  in place, so what it shares with the stored arrays matters. Memory is a store from
  addresses to values with an allocation pointer; an array is a row-major view of it: the
  address of its first element and its shape. A one-dimensional array of \<open>N\<close> times is a
  view with \<open>N\<close> rows of one column. Element types are not tracked: the 0/1 entries of the
  \<^verbatim>\<open>int32\<close> arrays and the \<^verbatim>\<open>float32\<close> times are real numbers here.
\<close>

record heap =
  mem :: "nat \<Rightarrow> real"
  next_free :: nat

record ndarray =
  addr :: nat
  nrows :: nat
  ncols :: nat

definition row :: "heap \<Rightarrow> ndarray \<Rightarrow> nat \<Rightarrow> real list" where
  "row h a i = map (\<lambda>j. mem h (addr a + i * ncols a + j)) [0..<ncols a]"

definition rows :: "heap \<Rightarrow> ndarray \<Rightarrow> real list list" where
  "rows h a = map (row h a) [0..<nrows a]"

text \<open>\<^verbatim>\<open>a[lo:hi]\<close> for non-negative bounds: a view, clipped to the rows there are.\<close>

definition slice_rows :: "nat \<Rightarrow> nat \<Rightarrow> ndarray \<Rightarrow> ndarray" where
  "slice_rows lo hi a =
     (let lo' = min lo (nrows a); hi' = max lo' (min hi (nrows a))
      in a\<lparr>addr := addr a + lo' * ncols a, nrows := hi' - lo'\<rparr>)"

text \<open>\<^verbatim>\<open>a.reshape(r, c)\<close> of a contiguous view: a view again, or \<^verbatim>\<open>ValueError\<close>.\<close>

definition reshape :: "nat \<Rightarrow> nat \<Rightarrow> ndarray \<Rightarrow> error + ndarray" where
  "reshape r c a =
     (if nrows a * ncols a = r * c then Inr (a\<lparr>nrows := r, ncols := c\<rparr>) else Inl ValueError)"

text \<open>\<^verbatim>\<open>a.astype(np.float32)\<close>: always a new array holding a copy.\<close>

definition astype :: "ndarray \<Rightarrow> heap \<Rightarrow> ndarray \<times> heap" where
  "astype a h =
     (let n = nrows a * ncols a; b = next_free h
      in (\<lparr>addr = b, nrows = nrows a, ncols = ncols a\<rparr>,
          h\<lparr>mem := (\<lambda>k. if b \<le> k \<and> k < b + n then mem h (addr a + (k - b)) else mem h k),
            next_free := b + n\<rparr>))"

text \<open>\<^verbatim>\<open>a += noise\<close>: written through \<open>a\<close> into the memory it views.\<close>

definition iadd :: "ndarray \<Rightarrow> (nat \<Rightarrow> real) \<Rightarrow> heap \<Rightarrow> heap" where
  "iadd a noise h =
     (let n = nrows a * ncols a
      in h\<lparr>mem := (\<lambda>k. if addr a \<le> k \<and> k < addr a + n
                        then mem h k + noise (k - addr a) else mem h k)\<rparr>)"

text \<open>\<^verbatim>\<open>np.maximum(0, a)\<close>: a new array.\<close>

definition maximum0 :: "ndarray \<Rightarrow> heap \<Rightarrow> ndarray \<times> heap" where
  "maximum0 a h =
     (let n = nrows a * ncols a; b = next_free h
      in (\<lparr>addr = b, nrows = nrows a, ncols = ncols a\<rparr>,
          h\<lparr>mem := (\<lambda>k. if b \<le> k \<and> k < b + n then max 0 (mem h (addr a + (k - b))) else mem h k),
            next_free := b + n\<rparr>))"

text \<open>\<^verbatim>\<open>a[i] = np.zeros(...)\<close>: row \<open>i\<close> written in place, \<^verbatim>\<open>IndexError\<close> out of range.\<close>

definition set_row_zero :: "ndarray \<Rightarrow> nat \<Rightarrow> heap \<Rightarrow> error + heap" where
  "set_row_zero a i h =
     (if i < nrows a
      then Inr (h\<lparr>mem := (\<lambda>k. if addr a + i * ncols a \<le> k \<and> k < addr a + i * ncols a + ncols a
                               then 0 else mem h k)\<rparr>)
      else Inl IndexError)"

text \<open>A Python list read at an index that may be negative.\<close>

definition py_index :: "'a list \<Rightarrow> int \<Rightarrow> nat option" where
  "py_index xs i =
     (if 0 \<le> i \<and> i < int (length xs) then Some (nat i)
      else if i < 0 \<and> 0 \<le> i + int (length xs) then Some (nat (i + int (length xs)))
      else None)"

text \<open>
  \<^verbatim>\<open>extract_samples\<close>. The random draws are arguments: \<open>noise_midi\<close> and \<open>noise_time\<close> are
  the values of the two \<^verbatim>\<open>np.random.normal\<close> calls by flat position, \<open>draw\<close> decides
  \<^verbatim>\<open>np.random.randint(seq_length)\<close>, which raises for \<^verbatim>\<open>seq_length = 0\<close>. The result is the
  four returned arrays, or the exception raised, together with the memory the call leaves
  behind in either case.
\<close>

definition extract_samples ::
  "ndarray list \<Rightarrow> ndarray list \<Rightarrow> nat \<Rightarrow> nat \<Rightarrow> int \<Rightarrow> (nat \<Rightarrow> real) \<Rightarrow> (nat \<Rightarrow> real) \<Rightarrow> nat
     \<Rightarrow> heap \<Rightarrow> (error + (ndarray \<times> ndarray \<times> ndarray \<times> ndarray)) \<times> heap" where
  "extract_samples midis_array midi_times_array p seq_length current_file
       noise_midi noise_time draw h =
     (case py_index midis_array current_file of
        None \<Rightarrow> (Inl IndexError, h)
      | Some cf \<Rightarrow>
     (case reshape seq_length (5 * 8) (slice_rows p (p + seq_length) (midis_array ! cf)) of
        Inl e \<Rightarrow> (Inl e, h)
      | Inr v1 \<Rightarrow>
     (let (input_midi_val, h1) = astype v1 h
      in
     (case py_index midi_times_array current_file of
        None \<Rightarrow> (Inl IndexError, h1)
      | Some ct \<Rightarrow>
     (case reshape seq_length 1 (slice_rows p (p + seq_length) (midi_times_array ! ct)) of
        Inl e \<Rightarrow> (Inl e, h1)
      | Inr v2 \<Rightarrow>
     (let (input_time_val, h2) = astype v2 h1
      in
     (case reshape seq_length (5 * 8)
             (slice_rows (p + 1) (p + seq_length + 1) (midis_array ! cf)) of
        Inl e \<Rightarrow> (Inl e, h2)
      | Inr target_midi_val \<Rightarrow>
     (case reshape seq_length 1
             (slice_rows (p + 1) (p + seq_length + 1) (midi_times_array ! ct)) of
        Inl e \<Rightarrow> (Inl e, h2)
      | Inr target_time_val \<Rightarrow>
     (let h3 = iadd input_midi_val noise_midi h2;
          h4 = iadd input_time_val noise_time h3;
          (input_midi_val', h5) = maximum0 input_midi_val h4;
          (input_time_val', h6) = maximum0 input_time_val h5
      in if seq_length = 0 then (Inl ValueError, h6)
         else (let random_int = draw mod seq_length
               in (case set_row_zero input_midi_val' random_int h6 of
                     Inl e \<Rightarrow> (Inl e, h6)
                   | Inr h7 \<Rightarrow>
                       (case set_row_zero input_time_val' random_int h7 of
                          Inl e \<Rightarrow> (Inl e, h7)
                        | Inr h8 \<Rightarrow>
                            (Inr (input_midi_val', input_time_val', target_midi_val,
                                  target_time_val), h8)))))))))))))"

section \<open>The resident pool and the training loop\<close>

text \<open>
  The notebook keeps the resident files in parallel Python lists. \<open>loaded_files\<close> is
  \<open>None\<close> while the name is not bound: no cell of the notebook assigns it before the
  training loop reads it. The recurrent states are opaque values of type \<open>'s\<close>.
\<close>

record 's pool =
  midis_array :: "ndarray list"
  midi_times_array :: "ndarray list"
  p_list :: "nat list"
  rnn_state1_list :: "'s list"
  rnn_state2_list :: "'s list"
  loaded_files :: "nat list option"
  current_file :: int

text \<open>
  The random source is explicit: the values behind the \<^verbatim>\<open>np.random.randint\<close> calls and
  the values of the \<^verbatim>\<open>np.random.uniform\<close> calls, in the order they are drawn. A loop that
  needs a draw when none is left has no result (\<open>None\<close>).
\<close>

record rng =
  ints :: "nat list"
  uniforms :: "real list"

text \<open>\<^verbatim>\<open>np.random.randint(n)\<close>: a value below \<open>n\<close>, \<^verbatim>\<open>ValueError\<close> for \<open>n = 0\<close>.\<close>

definition randint :: "nat \<Rightarrow> nat list \<Rightarrow> ((error + nat) \<times> nat list) option" where
  "randint n tape =
     (case tape of
        [] \<Rightarrow> None
      | v # rest \<Rightarrow> Some (if n = 0 then Inl ValueError else Inr (v mod n), rest))"

definition py_set :: "'a list \<Rightarrow> int \<Rightarrow> 'a \<Rightarrow> error + 'a list" where
  "py_set xs i v = (case py_index xs i of None \<Rightarrow> Inl IndexError | Some k \<Rightarrow> Inr (xs[k := v]))"

text \<open>The slice \<^verbatim>\<open>xs[1:m]\<close>.\<close>

definition slice_1_to :: "nat \<Rightarrow> 'a list \<Rightarrow> 'a list" where
  "slice_1_to m xs = drop 1 (take m xs)"

text \<open>
  The loop condition
  \<^verbatim>\<open>p_list[current_file] + seq_length + 1 > midis_array[current_file].shape[0]\<close>.
\<close>

definition exhausted :: "'s pool \<Rightarrow> nat \<Rightarrow> error + bool" where
  "exhausted pool seq_len =
     (case py_index (p_list pool) (current_file pool) of
        None \<Rightarrow> Inl IndexError
      | Some i \<Rightarrow>
          (case py_index (midis_array pool) (current_file pool) of
             None \<Rightarrow> Inl IndexError
           | Some j \<Rightarrow> Inr (p_list pool ! i + seq_len + 1 > nrows (midis_array pool ! j))))"

text \<open>The three assignments under \<^verbatim>\<open># Reset current file tracking\<close>.\<close>

definition reset_stream :: "'s \<Rightarrow> 's \<Rightarrow> 's pool \<Rightarrow> error + 's pool" where
  "reset_stream zero1 zero2 pool =
     (case py_set (p_list pool) (current_file pool) 0 of
        Inl e \<Rightarrow> Inl e
      | Inr ps \<Rightarrow>
          (case py_set (rnn_state1_list pool) (current_file pool) zero1 of
             Inl e \<Rightarrow> Inl e
           | Inr s1 \<Rightarrow>
               (case py_set (rnn_state2_list pool) (current_file pool) zero2 of
                  Inl e \<Rightarrow> Inl e
                | Inr s2 \<Rightarrow>
                    Inr (pool\<lparr>p_list := ps, rnn_state1_list := s1, rnn_state2_list := s2\<rparr>))))"

text \<open>
  The loop \<^verbatim>\<open>while (not file_loaded or (file_choice in loaded_files))\<close>. The condition is
  outside the \<^verbatim>\<open>try\<close>: reading \<open>loaded_files\<close> while it is unbound raises
  \<^verbatim>\<open>NameError\<close>. Inside the \<^verbatim>\<open>try\<close>, a failing \<^verbatim>\<open>randint\<close> or \<^verbatim>\<open>mido.MidiFile\<close> is printed
  and the loop goes on. \<open>file_loaded\<close> is never set back to \<^verbatim>\<open>False\<close>. The result is the
  last \<open>file_choice\<close> and the draws that are left.
\<close>

definition select_cond :: "nat list option \<Rightarrow> bool \<Rightarrow> nat \<Rightarrow> error + bool" where
  "select_cond loaded file_loaded file_choice =
     (if \<not> file_loaded then Inr True
      else case loaded of None \<Rightarrow> Inl NameError | Some lf \<Rightarrow> Inr (file_choice \<in> set lf))"

fun select_loop ::
  "('f \<Rightarrow> error + midi_file) \<Rightarrow> 'f list \<Rightarrow> nat list option \<Rightarrow> bool \<Rightarrow> nat \<Rightarrow> nat list
     \<Rightarrow> (error + nat \<times> nat list) option" where
  "select_loop MF files loaded file_loaded file_choice tape =
     (case select_cond loaded file_loaded file_choice of
        Inl e \<Rightarrow> Some (Inl e)
      | Inr go_on \<Rightarrow>
          if \<not> go_on then Some (Inr (file_choice, tape))
          else (case tape of
                  [] \<Rightarrow> None
                | v # rest \<Rightarrow>
                    if files = [] then select_loop MF files loaded file_loaded file_choice rest
                    else let c = v mod length files
                         in select_loop MF files loaded
                              (file_loaded \<or> (is_midi_0 MF (files ! c) = Inr True \<and> \<not> isl (MF (files ! c))))
                              c rest))"

text \<open>
  The block \<^verbatim>\<open># Transition to loading new file\<close>, from \<^verbatim>\<open>file_loaded = False\<close> to
  \<^verbatim>\<open>current_file = len(midis_array)-1\<close>. The parsed \<^verbatim>\<open>midi_file\<close> is not used after the
  loop: nothing is appended to \<open>midis_array\<close>, \<open>midi_times_array\<close> or \<open>loaded_files\<close>.
\<close>

definition rotate ::
  "('f \<Rightarrow> error + midi_file) \<Rightarrow> 'f list \<Rightarrow> 's \<Rightarrow> 's \<Rightarrow> nat \<Rightarrow> 's pool \<Rightarrow> nat list
     \<Rightarrow> (error + 's pool \<times> nat list) option" where
  "rotate MF files zero1 zero2 max_files pool tape =
     (case select_loop MF files (loaded_files pool) False 0 tape of
        None \<Rightarrow> None
      | Some (Inl e) \<Rightarrow> Some (Inl e)
      | Some (Inr (file_choice, tape')) \<Rightarrow>
          (let pool1 = pool\<lparr>p_list := p_list pool @ [0],
                            rnn_state1_list := rnn_state1_list pool @ [zero1],
                            rnn_state2_list := rnn_state2_list pool @ [zero2]\<rparr>
           in if length (midis_array pool1) > max_files
              then (case loaded_files pool1 of
                      None \<Rightarrow> Some (Inl NameError)
                    | Some lf \<Rightarrow>
                        (let pool2 = pool1\<lparr>midis_array := slice_1_to max_files (midis_array pool1),
                                           midi_times_array := slice_1_to max_files (midi_times_array pool1),
                                           p_list := slice_1_to max_files (p_list pool1),
                                           rnn_state1_list := slice_1_to max_files (rnn_state1_list pool1),
                                           rnn_state2_list := slice_1_to max_files (rnn_state2_list pool1),
                                           loaded_files := Some (slice_1_to max_files lf)\<rparr>
                         in Some (Inr (pool2\<lparr>current_file := int (length (midis_array pool2)) - 1\<rparr>,
                                       tape'))))
              else Some (Inr (pool1\<lparr>current_file := int (length (midis_array pool1)) - 1\<rparr>,
                              tape'))))"

definition uniform :: "rng \<Rightarrow> (real \<times> rng) option" where
  "uniform g = (case uniforms g of [] \<Rightarrow> None | u # us \<Rightarrow> Some (u, g\<lparr>uniforms := us\<rparr>))"

text \<open>
  The loop \<^verbatim>\<open>while (p_list[current_file] + seq_length + 1 > ...)\<close> of one training
  iteration: reset the exhausted stream, pick again, and with a draw above \<open>loading_rate\<close>
  run the rotation block. The first argument bounds the number of passes.
\<close>

fun pick_loop ::
  "nat \<Rightarrow> ('f \<Rightarrow> error + midi_file) \<Rightarrow> 'f list \<Rightarrow> 's \<Rightarrow> 's \<Rightarrow> nat \<Rightarrow> nat \<Rightarrow> real
     \<Rightarrow> 's pool \<Rightarrow> rng \<Rightarrow> (error + 's pool \<times> rng) option" where
  "pick_loop 0 MF files zero1 zero2 max_files seq_len loading_rate pool g = None"
| "pick_loop (Suc fuel) MF files zero1 zero2 max_files seq_len loading_rate pool g =
     (case exhausted pool seq_len of
        Inl e \<Rightarrow> Some (Inl e)
      | Inr ex \<Rightarrow>
          if \<not> ex then Some (Inr (pool, g))
          else (case reset_stream zero1 zero2 pool of
                  Inl e \<Rightarrow> Some (Inl e)
                | Inr pool1 \<Rightarrow>
                    (case randint (length (midis_array pool1)) (ints g) of
                       None \<Rightarrow> None
                     | Some (Inl e, rest) \<Rightarrow> Some (Inl e)
                     | Some (Inr c, rest) \<Rightarrow>
                         (case uniform (g\<lparr>ints := rest\<rparr>) of
                            None \<Rightarrow> None
                          | Some (u, g1) \<Rightarrow>
                              if u > loading_rate
                              then (case rotate MF files zero1 zero2 max_files
                                           (pool1\<lparr>current_file := int c\<rparr>) (ints g1) of
                                      None \<Rightarrow> None
                                    | Some (Inl e) \<Rightarrow> Some (Inl e)
                                    | Some (Inr (pool2, rest')) \<Rightarrow>
                                        pick_loop fuel MF files zero1 zero2 max_files seq_len
                                          loading_rate pool2 (g1\<lparr>ints := rest'\<rparr>))
                              else pick_loop fuel MF files zero1 zero2 max_files seq_len
                                     loading_rate (pool1\<lparr>current_file := int c\<rparr>) g1))))"

text \<open>The start of an iteration: the first pick, then the loop.\<close>

definition pick_window ::
  "nat \<Rightarrow> ('f \<Rightarrow> error + midi_file) \<Rightarrow> 'f list \<Rightarrow> 's \<Rightarrow> 's \<Rightarrow> nat \<Rightarrow> nat \<Rightarrow> real
     \<Rightarrow> 's pool \<Rightarrow> rng \<Rightarrow> (error + 's pool \<times> rng) option" where
  "pick_window fuel MF files zero1 zero2 max_files seq_len loading_rate pool g =
     (case randint (length (midis_array pool)) (ints g) of
        None \<Rightarrow> None
      | Some (Inl e, rest) \<Rightarrow> Some (Inl e)
      | Some (Inr c, rest) \<Rightarrow>
          pick_loop fuel MF files zero1 zero2 max_files seq_len loading_rate
            (pool\<lparr>current_file := int c\<rparr>) (g\<lparr>ints := rest\<rparr>))"

text \<open>
  The end of an iteration: the states the model returned are stored and
  \<^verbatim>\<open>p_list[current_file] += seq_length\<close>.
\<close>

definition commit :: "'s \<Rightarrow> 's \<Rightarrow> nat \<Rightarrow> 's pool \<Rightarrow> error + 's pool" where
  "commit states1f_val states2f_val seq_len pool =
     (case py_set (rnn_state1_list pool) (current_file pool) states1f_val of
        Inl e \<Rightarrow> Inl e
      | Inr s1 \<Rightarrow>
          (case py_set (rnn_state2_list pool) (current_file pool) states2f_val of
             Inl e \<Rightarrow> Inl e
           | Inr s2 \<Rightarrow>
               (case py_index (p_list pool) (current_file pool) of
                  None \<Rightarrow> Inl IndexError
                | Some i \<Rightarrow>
                    Inr (pool\<lparr>rnn_state1_list := s1, rnn_state2_list := s2,
                             p_list := (p_list pool)[i := p_list pool ! i + seq_len]\<rparr>))))"

text \<open>
  One iteration of \<^verbatim>\<open>for iteration in tqdm(range(...))\<close>: the first pick and the loop, then
  \<^verbatim>\<open>extract_samples\<close> and \<^verbatim>\<open>sess.run\<close> on the picked stream, then the commit. \<open>model_step\<close>
  stands for the two calls in the middle: they read the pool and change nothing of it
  (for \<^verbatim>\<open>extract_samples\<close> that is shown below), and they give the two states the model
  returns, or the exception one of them raises.
\<close>

definition training_iteration ::
  "nat \<Rightarrow> ('f \<Rightarrow> error + midi_file) \<Rightarrow> 'f list \<Rightarrow> 's \<Rightarrow> 's \<Rightarrow> nat \<Rightarrow> nat \<Rightarrow> real
     \<Rightarrow> ('s pool \<Rightarrow> error + 's \<times> 's) \<Rightarrow> 's pool \<Rightarrow> rng \<Rightarrow> (error + 's pool \<times> rng) option" where
  "training_iteration fuel MF files zero1 zero2 max_files seq_len loading_rate model_step pool g =
     (case pick_window fuel MF files zero1 zero2 max_files seq_len loading_rate pool g of
        None \<Rightarrow> None
      | Some (Inl e) \<Rightarrow> Some (Inl e)
      | Some (Inr (pool1, g1)) \<Rightarrow>
          (case model_step pool1 of
             Inl e \<Rightarrow> Some (Inl e)
           | Inr (states1f_val, states2f_val) \<Rightarrow>
               (case commit states1f_val states2f_val seq_len pool1 of
                  Inl e \<Rightarrow> Some (Inl e)
                | Inr pool2 \<Rightarrow> Some (Inr (pool2, g1)))))"

text \<open>The training loop: the first argument is the number of iterations.\<close>

fun training_loop ::
  "nat \<Rightarrow> nat \<Rightarrow> ('f \<Rightarrow> error + midi_file) \<Rightarrow> 'f list \<Rightarrow> 's \<Rightarrow> 's \<Rightarrow> nat \<Rightarrow> nat \<Rightarrow> real
     \<Rightarrow> ('s pool \<Rightarrow> error + 's \<times> 's) \<Rightarrow> 's pool \<Rightarrow> rng \<Rightarrow> (error + 's pool \<times> rng) option" where
  "training_loop 0 fuel MF files zero1 zero2 max_files seq_len loading_rate model_step pool g =
     Some (Inr (pool, g))"
| "training_loop (Suc n) fuel MF files zero1 zero2 max_files seq_len loading_rate model_step pool g =
     (case training_loop n fuel MF files zero1 zero2 max_files seq_len loading_rate model_step
             pool g of
        None \<Rightarrow> None
      | Some (Inl e) \<Rightarrow> Some (Inl e)
      | Some (Inr (pool', g')) \<Rightarrow>
          training_iteration fuel MF files zero1 zero2 max_files seq_len loading_rate model_step
            pool' g')"

section \<open>The chunking of the specification\<close>

text \<open>
  The specification's words for encoding one message: cut the bytes into consecutive
  chunks of at most three; every chunk is a row of the flag \<open>f\<close>, the chunk's bytes in
  the three slots (0 where unused) and the number of bytes in the chunk.
\<close>

fun chunk_rows :: "byte \<Rightarrow> byte list \<Rightarrow> byte list list" where
  "chunk_rows f (a # b # c # d # rest) = [f, a, b, c, 3] # chunk_rows f (d # rest)"
| "chunk_rows f [a, b, c] = [[f, a, b, c, 3]]"
| "chunk_rows f [a, b] = [[f, a, b, 0, 2]]"
| "chunk_rows f [a] = [[f, a, 0, 0, 1]]"
| "chunk_rows f [] = []"

section \<open>Encoding followed by decoding\<close>


section \<open>A concrete memory\<close>

text \<open>
  For concrete runs of \<^verbatim>\<open>extract_samples\<close>: three stored rows, each the bits of the record
  \<open>[0, 0xFE, 0, 0, 1]\<close> (a one-byte message), at addresses 0 to 119, and their three times,
  all 0, at addresses 120 to 122.
\<close>

abbreviation example_memory :: heap where
  "example_memory \<equiv>
     \<lparr>mem = (\<lambda>k. if k < 120 \<and> (8 \<le> k mod 40 \<and> k mod 40 \<le> 14 \<or> k mod 40 = 39) then 1 else 0),
      next_free = 123\<rparr>"

abbreviation example_midis :: ndarray where
  "example_midis \<equiv> \<lparr>addr = 0, nrows = 3, ncols = 40\<rparr>"

abbreviation example_times :: ndarray where
  "example_times \<equiv> \<lparr>addr = 120, nrows = 3, ncols = 1\<rparr>"

section \<open>Bit expansion and packing are inverse\<close>






section \<open>The encoding loop computes the chunking\<close>

lemma zeros5_eq: "zeros5 = [0,0,0,0,0]"
  by (simp add: zeros5_def numeral_eq_Suc)

lemma step_emit:
  "(ind + 1) mod 3 = 0 \<or> ind + 1 = L \<Longrightarrow>
   encode_loop L tm ind (b # bs) (cur, D, T) =
   encode_loop L tm (ind + 1) bs
      (zeros5, D @ [((if L > 3 then cur[0 := 1] else cur)[1 + ind mod 3 := b])[4 := word_of_nat (ind mod 3 + 1)]], T @ [tm])"
  by (simp add: Let_def)

lemma step_keep:
  "\<not> ((ind + 1) mod 3 = 0 \<or> ind + 1 = L) \<Longrightarrow>
   encode_loop L tm ind (b # bs) (cur, D, T) =
   encode_loop L tm (ind + 1) bs ((if L > 3 then cur[0 := 1] else cur)[1 + ind mod 3 := b], D, T)"
  by (simp add: Let_def)

lemma first_of_chunk:
  assumes "ind mod 3 = 0" "L \<noteq> Suc ind"
  shows "encode_loop L tm ind (a # bs) (zeros5, D, T) =
         encode_loop L tm (Suc ind) bs ([if L > 3 then 1 else 0, a, 0, 0, 0], D, T)"
proof -
  have "\<not> ((ind + 1) mod 3 = 0 \<or> ind + 1 = L)" using assms by presburger
  then show ?thesis using assms(1) by (subst step_keep) (simp_all add: zeros5_eq)
qed

lemma second_of_chunk:
  assumes "ind mod 3 = 0" "L \<noteq> Suc (Suc ind)"
  shows "encode_loop L tm (Suc ind) (b # bs) ([f, a, 0, 0, 0], D, T) =
         encode_loop L tm (Suc (Suc ind)) bs ([if L > 3 then 1 else f, a, b, 0, 0], D, T)"
proof -
  have n: "\<not> ((Suc ind + 1) mod 3 = 0 \<or> Suc ind + 1 = L)" using assms by presburger
  have m: "Suc ind mod 3 = 1" using assms by presburger
  show ?thesis by (subst step_keep[OF n]) (simp add: m)
qed

lemma third_of_chunk:
  assumes "ind mod 3 = 0"
  shows "encode_loop L tm (Suc (Suc ind)) (c # bs) ([f, a, b, 0, 0], D, T) =
         encode_loop L tm (Suc (Suc (Suc ind))) bs
           (zeros5, D @ [[if L > 3 then 1 else f, a, b, c, 3]], T @ [tm])"
proof -
  have n: "(Suc (Suc ind) + 1) mod 3 = 0 \<or> Suc (Suc ind) + 1 = L" using assms by presburger
  have m: "Suc (Suc ind) mod 3 = 2" using assms by presburger
  show ?thesis by (subst step_emit[OF n]) (simp add: m)
qed

lemma last_one:
  assumes "ind mod 3 = 0" "L = Suc ind"
  shows "encode_loop L tm ind [a] (zeros5, D, T) =
         (zeros5, D @ [[if L > 3 then 1 else 0, a, 0, 0, 1]], T @ [tm])"
  using assms by (subst step_emit) (simp_all add: zeros5_eq)

lemma last_two:
  assumes "ind mod 3 = 0" "L = Suc (Suc ind)"
  shows "encode_loop L tm (Suc ind) [b] ([f, a, 0, 0, 0], D, T) =
         (zeros5, D @ [[if L > 3 then 1 else f, a, b, 0, 2]], T @ [tm])"
proof -
  have n: "(Suc ind + 1) mod 3 = 0 \<or> Suc ind + 1 = L" using assms by presburger
  have m: "Suc ind mod 3 = 1" using assms by presburger
  show ?thesis by (subst step_emit[OF n]) (simp add: m)
qed

declare encode_loop.simps(2) [simp del]

lemma encode_loop_aligned:
  "ind mod 3 = 0 \<Longrightarrow> L = ind + length bs \<Longrightarrow>
   encode_loop L tm ind bs (zeros5, D, T) =
     (zeros5, D @ chunk_rows (if L > 3 then 1 else 0) bs,
      T @ replicate (length (chunk_rows (if L > 3 then 1 else 0) bs)) tm)"
proof (induction "if L > 3 then 1 else 0 :: byte" bs arbitrary: ind D T rule: chunk_rows.induct)
  case (1 a b c d rest)
  have m: "Suc (Suc (Suc ind)) mod 3 = 0" using 1(2) by presburger
  have L: "L = Suc (Suc (Suc ind)) + length (d # rest)" using 1(3) by simp
  have ne: "L \<noteq> Suc ind" "L \<noteq> Suc (Suc ind)" using 1(3) by simp_all
  have "encode_loop L tm ind (a # b # c # d # rest) (zeros5, D, T) =
        encode_loop L tm (Suc (Suc (Suc ind))) (d # rest)
          (zeros5, D @ [[if L > 3 then 1 else 0, a, b, c, 3]], T @ [tm])"
    by (simp add: first_of_chunk[OF 1(2) ne(1)] second_of_chunk[OF 1(2) ne(2)] third_of_chunk[OF 1(2)])
  also have "\<dots> = (zeros5, (D @ [[if L > 3 then 1 else 0, a, b, c, 3]]) @ chunk_rows (if L > 3 then 1 else 0) (d # rest),
      (T @ [tm]) @ replicate (length (chunk_rows (if L > 3 then 1 else 0) (d # rest))) tm)"
    by (rule 1(1)[OF m L])
  finally show ?case by (simp add: replicate_append_same)
next
  case (2 a b c)
  have ne: "L \<noteq> Suc ind" "L \<noteq> Suc (Suc ind)" using 2(2) by simp_all
  show ?case
    by (simp add: first_of_chunk[OF 2(1) ne(1)] second_of_chunk[OF 2(1) ne(2)] third_of_chunk[OF 2(1)])
next
  case (3 a b)
  have ne: "L \<noteq> Suc ind" and e: "L = Suc (Suc ind)" using 3(2) by simp_all
  show ?case
    by (simp add: first_of_chunk[OF 3(1) ne] last_two[OF 3(1) e])
next
  case (4 a)
  have e: "L = Suc ind" using 4(2) by simp
  show ?case by (simp add: last_one[OF 4(1) e])
next
  case 5
  then show ?case by simp
qed

lemma length_chunk_rows: "length (chunk_rows f bs) = (length bs + 2) div 3"
  by (induction f bs rule: chunk_rows.induct) simp_all

lemma flag_chunk_rows: "r \<in> set (chunk_rows f bs) \<Longrightarrow> r ! 0 = f"
  by (induction f bs rule: chunk_rows.induct) auto

lemma len_chunk_rows: "Suc i < length (chunk_rows f bs) \<Longrightarrow> chunk_rows f bs ! i ! 4 = 3"
proof (induction f bs arbitrary: i rule: chunk_rows.induct)
  case (1 f a b c d rest)
  then show ?case by (cases i) simp_all
qed simp_all

lemma last_len_arith:
  "1 \<le> L \<Longrightarrow> L - 3 * ((L + 2) div 3 - 1) = (L - 1) mod 3 + (1::nat)"
proof -
  assume "1 \<le> L"
  then obtain m where L: "L = Suc m" by (cases L) auto
  have "(m + 3) div 3 = Suc (m div 3)" by simp
  then have a: "3 * ((L + 2) div 3 - 1) = 3 * (m div 3)" by (simp add: L)
  have "m = 3 * (m div 3) + m mod 3" by simp
  then have "Suc m - 3 * (m div 3) = Suc (m mod 3)" by linarith
  then show ?thesis unfolding a unfolding L by simp
qed

lemma chunk_rows_nonempty: "bs \<noteq> [] \<Longrightarrow> chunk_rows f bs \<noteq> []"
proof -
  assume "bs \<noteq> []"
  then have "length (chunk_rows f bs) \<noteq> 0"
    unfolding length_chunk_rows by (cases bs) simp_all
  then show ?thesis by (simp del: chunk_rows.simps)
qed

lemma last_chunk_rows_mod:
  "bs \<noteq> [] \<Longrightarrow> last (chunk_rows f bs) ! 4 = word_of_nat ((length bs - 1) mod 3 + 1)"
proof (induction f bs rule: chunk_rows.induct)
  case (1 f a b c d rest)
  have ne: "chunk_rows f (d # rest) \<noteq> []" by (rule chunk_rows_nonempty) simp
  have "last (chunk_rows f (a # b # c # d # rest)) = last (chunk_rows f (d # rest))"
    using ne by simp
  moreover have "last (chunk_rows f (d # rest)) ! 4 = word_of_nat ((length (d # rest) - 1) mod 3 + 1)"
    by (rule 1) simp
  moreover have "(length (a # b # c # d # rest) - 1) mod 3 = (length (d # rest) - 1) mod 3"
    by simp
  ultimately show ?case by (simp only:)
qed simp_all

lemma ceil3: "nat \<lceil>real L / 3\<rceil> = (L + 2) div 3"
proof -
  have "\<lceil>real L / 3\<rceil> = int ((L + 2) div 3)"
  proof (rule ceiling_unique)
    show "real_of_int (int ((L + 2) div 3)) - 1 < real L / 3"
    proof -
      have "3 * ((L + 2) div 3) < L + 3" by presburger
      then have "real (3 * ((L + 2) div 3)) < real (L + 3)" by (simp only: of_nat_less_iff)
      then show ?thesis by simp
    qed
    show "real L / 3 \<le> real_of_int (int ((L + 2) div 3))"
    proof -
      have "L \<le> 3 * ((L + 2) div 3)" by presburger
      then have "real L \<le> real (3 * ((L + 2) div 3))" by (simp only: of_nat_le_iff)
      then show ?thesis by simp
    qed
  qed
  then show ?thesis by simp
qed

lemma encode_event_chunk_rows:
  "encode_event tpb x =
     (chunk_rows (if length (msg_bytes x) > 3 then 1 else 0) (msg_bytes x),
      replicate (length (chunk_rows (if length (msg_bytes x) > 3 then 1 else 0) (msg_bytes x)))
        (msg_time x * of_int tpb * 2))"
  unfolding encode_event_def
  by (subst encode_loop_aligned) simp_all

text \<open>
  C3. A message of \<open>L \<ge> 1\<close> bytes is encoded as \<open>ceil(L/3)\<close> rows; every row's flag is 1
  exactly when \<open>L > 3\<close>; the byte count is 3 in every row but the last, where it is
  \<open>L - 3 * (ceil(L/3) - 1)\<close>; and every row is stored with the same time, the message's
  time times \<open>ticks_per_beat\<close> times 2.
\<close>

theorem encode_event_chunking:
  assumes "1 \<le> length (msg_bytes x)"
  shows "length (fst (encode_event tpb x)) = nat \<lceil>real (length (msg_bytes x)) / 3\<rceil>
       \<and> length (snd (encode_event tpb x)) = length (fst (encode_event tpb x))
       \<and> (\<forall>r \<in> set (fst (encode_event tpb x)).
             r ! 0 = (if length (msg_bytes x) > 3 then 1 else 0))
       \<and> (\<forall>i. Suc i < length (fst (encode_event tpb x)) \<longrightarrow> fst (encode_event tpb x) ! i ! 4 = 3)
       \<and> last (fst (encode_event tpb x)) ! 4 =
           word_of_nat (length (msg_bytes x) - 3 * (nat \<lceil>real (length (msg_bytes x)) / 3\<rceil> - 1))
       \<and> (\<forall>t \<in> set (snd (encode_event tpb x)). t = msg_time x * of_int tpb * 2)"
proof -
  define f :: byte where "f = (if length (msg_bytes x) > 3 then 1 else 0)"
  have ne: "msg_bytes x \<noteq> []" using assms by auto
  have e: "encode_event tpb x =
      (chunk_rows f (msg_bytes x), replicate (length (chunk_rows f (msg_bytes x))) (msg_time x * of_int tpb * 2))"
    unfolding f_def by (rule encode_event_chunk_rows)
  have 1: "length (chunk_rows f (msg_bytes x)) = nat \<lceil>real (length (msg_bytes x)) / 3\<rceil>"
    by (simp only: length_chunk_rows ceil3)
  have 3: "\<forall>r \<in> set (chunk_rows f (msg_bytes x)). r ! 0 = f"
    using flag_chunk_rows by blast
  have 4: "\<forall>i. Suc i < length (chunk_rows f (msg_bytes x)) \<longrightarrow> chunk_rows f (msg_bytes x) ! i ! 4 = 3"
    using len_chunk_rows by blast
  have 5: "last (chunk_rows f (msg_bytes x)) ! 4 =
      word_of_nat (length (msg_bytes x) - 3 * (nat \<lceil>real (length (msg_bytes x)) / 3\<rceil> - 1))"
    by (simp only: last_chunk_rows_mod[OF ne] ceil3 last_len_arith[OF assms])
  show ?thesis
    unfolding e fst_conv snd_conv
    using 1 3 4 5 by (simp add: f_def del: chunk_rows.simps)
qed

theorem encode_event_chunking_witness:
  "1 \<le> length (msg_bytes \<lparr>msg_bytes = [0xF0, 0x01, 0x02, 0x03, 0xF7], msg_time = 1\<rparr>)
   \<and> length (fst (encode_event 480 \<lparr>msg_bytes = [0xF0, 0x01, 0x02, 0x03, 0xF7], msg_time = 1\<rparr>)) = 2
   \<and> last (fst (encode_event 480 \<lparr>msg_bytes = [0xF0, 0x01, 0x02, 0x03, 0xF7], msg_time = 1\<rparr>)) ! 4 = 2
   \<and> length (snd (encode_event 480 \<lparr>msg_bytes = [0xF0, 0x01, 0x02, 0x03, 0xF7], msg_time = 1\<rparr>)) = 2"
proof -
  have c: "nat \<lceil>real 5 / 3\<rceil> = 2" by (simp add: ceil3)
  show ?thesis
    using encode_event_chunking [of "\<lparr>msg_bytes = [0xF0, 0x01, 0x02, 0x03, 0xF7], msg_time = 1\<rparr>" 480]
    by (simp add: c)
qed

section \<open>Decoding what was encoded\<close>







lemma np_round_int: "np_round (of_int k) = k"
  by (simp add: np_round_def)








section \<open>Records with the flag clear\<close>








section \<open>A message without bytes\<close>

lemma load_loop_append:
  "load_loop tpb (xs @ ys) acc = load_loop tpb ys (load_loop tpb xs acc)"
  by (induction xs arbitrary: acc) (auto simp: split_beta)

lemma encode_event_empty: "msg_bytes z = [] \<Longrightarrow> encode_event tpb z = ([], [])"
  by (simp add: encode_event_def)

text \<open>
  C4, as the code has it. A message with no bytes adds no row and raises nothing: the
  inner loop does not run for it, and a file that has other messages loads exactly as if
  the message were not there.
\<close>

theorem empty_message_skipped:
  assumes "msg_bytes z = []"
  shows "encode_event tpb z = ([], []) \<and>
     (xs @ ys \<noteq> [] \<longrightarrow>
      load_midi_file to_float32 \<lparr>file_type = ty, ticks_per_beat = tpb, messages = xs @ z # ys\<rparr> =
      load_midi_file to_float32 \<lparr>file_type = ty, ticks_per_beat = tpb, messages = xs @ ys\<rparr>)"
proof -
  have "load_loop tpb (z # ys) acc = load_loop tpb ys acc" for acc
    by (cases acc) (simp add: encode_event_empty[OF assms])
  then have "load_loop tpb (xs @ z # ys) ([], []) = load_loop tpb (xs @ ys) ([], [])"
    by (simp add: load_loop_append)
  then show ?thesis
    by (simp add: load_midi_file_def encode_event_empty[OF assms])
qed

theorem empty_message_skipped_witness:
  "msg_bytes \<lparr>msg_bytes = [], msg_time = 3\<rparr> = []
   \<and> encode_event 480 \<lparr>msg_bytes = [], msg_time = 3\<rparr> = ([], [])
   \<and> [\<lparr>msg_bytes = [0x90, 0x40, 0x64], msg_time = 0\<rparr>] @ [] \<noteq> []
   \<and> load_midi_file exact_float32 \<lparr>file_type = 0, ticks_per_beat = 480,
        messages = [\<lparr>msg_bytes = [0x90, 0x40, 0x64], msg_time = 0\<rparr>]
                   @ \<lparr>msg_bytes = [], msg_time = 3\<rparr> # []\<rparr> =
       load_midi_file exact_float32 \<lparr>file_type = 0, ticks_per_beat = 480,
        messages = [\<lparr>msg_bytes = [0x90, 0x40, 0x64], msg_time = 0\<rparr>] @ []\<rparr>"
  using empty_message_skipped
          [of "\<lparr>msg_bytes = [], msg_time = 3\<rparr>" 480
              "[\<lparr>msg_bytes = [0x90, 0x40, 0x64], msg_time = 0\<rparr>]" "[]" exact_float32 0]
  by simp

text \<open>
  C4 as stated fails: a file whose first message has no bytes loads without an error, and
  the result has the row of the second message only.
\<close>

theorem empty_message_counterexample:
  "load_midi_file exact_float32 \<lparr>file_type = 0, ticks_per_beat = 480,
      messages = [\<lparr>msg_bytes = [], msg_time = 0\<rparr>, \<lparr>msg_bytes = [0x90, 0x40, 0x64], msg_time = 0\<rparr>]\<rparr> =
   Inr ([unpackbits_row [0, 0x90, 0x40, 0x64, 3]], [Some 0])"
  by (simp add: load_midi_file_def encode_event_chunk_rows exact_float32_def)

section \<open>The format check never raises\<close>

text \<open>
  C9. Whatever \<^verbatim>\<open>mido.MidiFile\<close> does with the path, \<^verbatim>\<open>is_midi_0\<close> returns a boolean and
  lets no exception through: \<^verbatim>\<open>True\<close> exactly when the file parses and its type is 0,
  \<^verbatim>\<open>False\<close> for every exception of the parser.
\<close>

theorem is_midi_0_never_raises:
  "is_midi_0 MF filename = Inr (\<exists>mf. MF filename = Inr mf \<and> file_type mf = 0)
   \<and> (\<forall>e. MF filename = Inl e \<longrightarrow> is_midi_0 MF filename = Inr False)"
  by (cases "MF filename") (simp_all add: is_midi_0_def)

theorem is_midi_0_never_raises_witness:
  "(\<lambda>f. if f = ''a.mid'' then Inr \<lparr>file_type = 0, ticks_per_beat = 480, messages = []\<rparr>
         else Inl IOError) ''gone.mid'' = Inl IOError
   \<and> is_midi_0 (\<lambda>f. if f = ''a.mid'' then Inr \<lparr>file_type = 0, ticks_per_beat = 480, messages = []\<rparr>
                     else Inl IOError) ''gone.mid'' = Inr False
   \<and> is_midi_0 (\<lambda>f. if f = ''a.mid'' then Inr \<lparr>file_type = 0, ticks_per_beat = 480, messages = []\<rparr>
                     else Inl IOError) ''a.mid'' = Inr True"
  using is_midi_0_never_raises
          [of "\<lambda>f. if f = ''a.mid'' then Inr \<lparr>file_type = 0, ticks_per_beat = 480, messages = []\<rparr>
                    else Inl IOError" "''gone.mid''"]
        is_midi_0_never_raises
          [of "\<lambda>f. if f = ''a.mid'' then Inr \<lparr>file_type = 0, ticks_per_beat = 480, messages = []\<rparr>
                    else Inl IOError" "''a.mid''"]
  by simp

section \<open>Cursor, exhaustion and commit\<close>

lemma py_index_nat: "c < length xs \<Longrightarrow> py_index xs (int c) = Some c"
  by (simp add: py_index_def)

lemma py_set_nat: "c < length xs \<Longrightarrow> py_set xs (int c) v = Inr (xs[c := v])"
  by (simp add: py_set_def py_index_nat)

lemma commit_valid:
  assumes "current_file pool = int c" "c < length (p_list pool)"
    "c < length (rnn_state1_list pool)" "c < length (rnn_state2_list pool)"
  shows "commit st1 st2 S pool =
     Inr (pool\<lparr>rnn_state1_list := (rnn_state1_list pool)[c := st1],
               rnn_state2_list := (rnn_state2_list pool)[c := st2],
               p_list := (p_list pool)[c := p_list pool ! c + S]\<rparr>)"
  using assms by (simp add: commit_def py_set_nat py_index_nat)

lemma exhausted_valid:
  assumes "current_file pool = int c" "c < length (p_list pool)" "c < length (midis_array pool)"
  shows "exhausted pool S = Inr (p_list pool ! c + S + 1 > nrows (midis_array pool ! c))"
  using assms by (simp add: exhausted_def py_index_nat)

lemma reset_valid:
  assumes "current_file pool = int c" "c < length (p_list pool)"
    "c < length (rnn_state1_list pool)" "c < length (rnn_state2_list pool)"
  shows "reset_stream z1 z2 pool =
     Inr (pool\<lparr>p_list := (p_list pool)[c := 0],
               rnn_state1_list := (rnn_state1_list pool)[c := z1],
               rnn_state2_list := (rnn_state2_list pool)[c := z2]\<rparr>)"
  using assms by (simp add: reset_stream_def py_set_nat)

lemma randint_pick:
  assumes "tape = v # rest" "c < n" "v mod n = c"
  shows "randint n tape = Some (Inr c, rest)"
  using assms by (auto simp: randint_def)

text \<open>The pick of a stream that has a window left: the loop body does not run.\<close>

lemma pick_window_fresh:
  assumes "ints g = v # rest" "v mod length (midis_array P) = c"
    "c < length (midis_array P)" "c < length (p_list P)"
    "p_list P ! c + S + 1 \<le> nrows (midis_array P ! c)"
  shows "pick_window (Suc fuel) MF files z1 z2 mx S rate P g =
     Some (Inr (P\<lparr>current_file := int c\<rparr>, g\<lparr>ints := rest\<rparr>))"
proof -
  have r: "randint (length (midis_array P)) (ints g) = Some (Inr c, rest)"
    by (rule randint_pick[OF assms(1,3,2)])
  have e: "exhausted (P\<lparr>current_file := int c\<rparr>) S = Inr False"
    using exhausted_valid[of "P\<lparr>current_file := int c\<rparr>" c S] assms(3,4,5) by simp
  show ?thesis by (simp add: pick_window_def r e)
qed

text \<open>
  The pick of a stream that has no window left, when the next pick is the same stream and
  the draw does not start a rotation: the loop body runs once and resets the stream.
\<close>

lemma pick_window_reset:
  assumes tape: "ints g = v # w # rest"
    and v: "v mod length (midis_array P) = c" and w: "w mod length (midis_array P) = c"
    and lens: "c < length (midis_array P)" "c < length (p_list P)"
      "c < length (rnn_state1_list P)" "c < length (rnn_state2_list P)"
    and u: "uniforms g = u # us" "u \<le> rate"
    and ex: "nrows (midis_array P ! c) < p_list P ! c + S + 1"
    and fit: "S + 1 \<le> nrows (midis_array P ! c)"
  shows "pick_window (Suc (Suc fuel)) MF files z1 z2 mx S rate P g =
     Some (Inr (P\<lparr>current_file := int c, p_list := (p_list P)[c := 0],
                  rnn_state1_list := (rnn_state1_list P)[c := z1],
                  rnn_state2_list := (rnn_state2_list P)[c := z2]\<rparr>,
                g\<lparr>ints := rest, uniforms := us\<rparr>))"
proof -
  define P0 where "P0 = P\<lparr>current_file := int c\<rparr>"
  define P1 where "P1 = P0\<lparr>p_list := (p_list P0)[c := 0],
                  rnn_state1_list := (rnn_state1_list P0)[c := z1],
                  rnn_state2_list := (rnn_state2_list P0)[c := z2]\<rparr>"
  have r0: "randint (length (midis_array P)) (ints g) = Some (Inr c, w # rest)"
    by (rule randint_pick[OF tape lens(1) v])
  have e0: "exhausted P0 S = Inr True"
    using exhausted_valid[of P0 c S] lens ex by (simp add: P0_def)
  have rs: "reset_stream z1 z2 P0 = Inr P1"
    unfolding P1_def using lens by (intro reset_valid) (simp_all add: P0_def)
  have r1: "randint (length (midis_array P1)) (w # rest) = Some (Inr c, rest)"
    using lens(1) w by (intro randint_pick) (simp_all add: P1_def P0_def)
  have un: "uniform (g\<lparr>ints := rest\<rparr>) = Some (u, g\<lparr>ints := rest, uniforms := us\<rparr>)"
    using u(1) by (simp add: uniform_def)
  have e1: "exhausted (P1\<lparr>current_file := int c\<rparr>) S = Inr False"
    using exhausted_valid[of "P1\<lparr>current_file := int c\<rparr>" c S] lens fit
    by (simp add: P1_def P0_def)
  have l1: "pick_loop (Suc fuel) MF files z1 z2 mx S rate (P1\<lparr>current_file := int c\<rparr>)
              (g\<lparr>ints := rest, uniforms := us\<rparr>) =
            Some (Inr (P1\<lparr>current_file := int c\<rparr>, g\<lparr>ints := rest, uniforms := us\<rparr>))"
    by (simp add: e1)
  have l0: "pick_loop (Suc (Suc fuel)) MF files z1 z2 mx S rate P0 (g\<lparr>ints := w # rest\<rparr>) =
            Some (Inr (P1\<lparr>current_file := int c\<rparr>, g\<lparr>ints := rest, uniforms := us\<rparr>))"
    using u(2) by (subst pick_loop.simps(2)) (simp add: e0 rs r1 un l1 del: pick_loop.simps)
  show ?thesis
    unfolding pick_window_def r0 using l0 by (simp add: P0_def P1_def del: pick_loop.simps)
qed

text \<open>An iteration on a stream that has a window left.\<close>

lemma training_iteration_fresh:
  assumes tape: "ints g = v # rest" and v: "v mod length (midis_array P) = c"
    and lens: "c < length (midis_array P)" "c < length (p_list P)"
      "c < length (rnn_state1_list P)" "c < length (rnn_state2_list P)"
    and fit: "p_list P ! c + S + 1 \<le> nrows (midis_array P ! c)"
    and ms: "model_step (P\<lparr>current_file := int c\<rparr>) = Inr (a, b)"
  shows "training_iteration (Suc fuel) MF files z1 z2 mx S rate model_step P g =
     Some (Inr (P\<lparr>current_file := int c,
                  rnn_state1_list := (rnn_state1_list P)[c := a],
                  rnn_state2_list := (rnn_state2_list P)[c := b],
                  p_list := (p_list P)[c := p_list P ! c + S]\<rparr>,
                g\<lparr>ints := rest\<rparr>))"
proof -
  have pw: "pick_window (Suc fuel) MF files z1 z2 mx S rate P g =
     Some (Inr (P\<lparr>current_file := int c\<rparr>, g\<lparr>ints := rest\<rparr>))"
    by (rule pick_window_fresh[OF tape v lens(1,2) fit])
  have cm: "commit a b S (P\<lparr>current_file := int c\<rparr>) =
     Inr (P\<lparr>current_file := int c,
                  rnn_state1_list := (rnn_state1_list P)[c := a],
                  rnn_state2_list := (rnn_state2_list P)[c := b],
                  p_list := (p_list P)[c := p_list P ! c + S]\<rparr>)"
    using lens by (subst commit_valid[of _ c]) simp_all
  show ?thesis
    unfolding training_iteration_def pw by (simp add: ms cm)
qed

lemma window_fits:
  assumes "1 \<le> S" "Suc j \<le> (N - 1) div S" "S + 1 \<le> (N::nat)"
  shows "j * S + S + 1 \<le> N"
proof -
  have "Suc j * S \<le> (N - 1) div S * S" using assms(2) by (rule mult_le_mono1)
  also have "\<dots> \<le> N - 1" by (rule div_times_less_eq_dividend)
  finally show ?thesis using assms(3) by simp
qed

lemma window_does_not_fit:
  assumes "1 \<le> (S::nat)"
  shows "N < (N - 1) div S * S + S + 1"
proof -
  have "N - 1 < S + (N - 1) div S * S" using assms by (intro dividend_less_div_times) simp
  then show ?thesis by linarith
qed

text \<open>
  The first \<open>j\<close> iterations on a stream that starts at cursor 0, for \<open>j\<close> up to
  \<open>(N - 1) div S\<close>, when every pick is that stream.
\<close>

lemma training_loop_prefix:
  assumes lens: "c < length (midis_array pool)" "c < length (p_list pool)"
      "c < length (rnn_state1_list pool)" "c < length (rnn_state2_list pool)"
    and N: "nrows (midis_array pool ! c) = N" and p0: "p_list pool ! c = 0"
    and S: "1 \<le> S" "S + 1 \<le> N"
    and ms: "\<And>q. model_step q = Inr (new_states q)"
    and picks: "\<forall>v \<in> set (ints g). v mod length (midis_array pool) = c"
      "(N - 1) div S \<le> length (ints g)"
  shows "j \<le> (N - 1) div S \<Longrightarrow>
     \<exists>pool'. training_loop j (Suc fuel) MF files z1 z2 mx S rate model_step pool g =
               Some (Inr (pool', g\<lparr>ints := drop j (ints g)\<rparr>))
           \<and> midis_array pool' = midis_array pool
           \<and> p_list pool' = (p_list pool)[c := j * S]
           \<and> length (rnn_state1_list pool') = length (rnn_state1_list pool)
           \<and> length (rnn_state2_list pool') = length (rnn_state2_list pool)"
proof (induction j)
  case 0
  have "(p_list pool)[c := 0] = p_list pool" using p0 by (metis list_update_id)
  then show ?case by simp
next
  case (Suc j)
  then obtain P where P: "training_loop j (Suc fuel) MF files z1 z2 mx S rate model_step pool g =
               Some (Inr (P, g\<lparr>ints := drop j (ints g)\<rparr>))"
    "midis_array P = midis_array pool" "p_list P = (p_list pool)[c := j * S]"
    "length (rnn_state1_list P) = length (rnn_state1_list pool)"
    "length (rnn_state2_list P) = length (rnn_state2_list pool)"
    by auto
  have jl: "j < length (ints g)" using Suc.prems picks(2) by linarith
  have tape: "ints (g\<lparr>ints := drop j (ints g)\<rparr>) = ints g ! j # drop (Suc j) (ints g)"
    using jl by (simp add: Cons_nth_drop_Suc)
  have v: "ints g ! j mod length (midis_array P) = c"
    using picks(1) jl by (simp add: P(2))
  have pc: "p_list P ! c = j * S" using lens(2) by (simp add: P(3))
  have fit: "p_list P ! c + S + 1 \<le> nrows (midis_array P ! c)"
    unfolding pc P(2) N by (rule window_fits[OF S(1) Suc.prems S(2)])
  obtain a b where ab: "new_states (P\<lparr>current_file := int c\<rparr>) = (a, b)"
    by (cases "new_states (P\<lparr>current_file := int c\<rparr>)")
  have it: "training_iteration (Suc fuel) MF files z1 z2 mx S rate model_step P
              (g\<lparr>ints := drop j (ints g)\<rparr>) =
     Some (Inr (P\<lparr>current_file := int c,
                  rnn_state1_list := (rnn_state1_list P)[c := a],
                  rnn_state2_list := (rnn_state2_list P)[c := b],
                  p_list := (p_list P)[c := p_list P ! c + S]\<rparr>,
                g\<lparr>ints := drop (Suc j) (ints g)\<rparr>))"
    using training_iteration_fresh[OF tape v _ _ _ _ fit, of model_step a b fuel MF files z1 z2 mx rate]
      lens ms ab by (simp add: P)
  have upd: "(p_list P)[c := p_list P ! c + S] = (p_list pool)[c := Suc j * S]"
    unfolding pc by (simp add: P(3) add.commute)
  have "training_loop (Suc j) (Suc fuel) MF files z1 z2 mx S rate model_step pool g =
     Some (Inr (P\<lparr>current_file := int c,
                  rnn_state1_list := (rnn_state1_list P)[c := a],
                  rnn_state2_list := (rnn_state2_list P)[c := b],
                  p_list := (p_list pool)[c := Suc j * S]\<rparr>,
                g\<lparr>ints := drop (Suc j) (ints g)\<rparr>))"
    unfolding upd[symmetric] it[symmetric] by (simp add: P(1))
  then show ?case
    by (intro exI[of _ "P\<lparr>current_file := int c,
                  rnn_state1_list := (rnn_state1_list P)[c := a],
                  rnn_state2_list := (rnn_state2_list P)[c := b],
                  p_list := (p_list pool)[c := Suc j * S]\<rparr>"]) (simp add: P(2,4,5))
qed

text \<open>
  C7. A stream \<open>c\<close> of \<open>N\<close> rows starts at cursor 0, the window size is \<open>S\<close> with
  \<open>1 \<le> S\<close> and \<open>S + 1 \<le> N\<close>, every pick of the training loop is stream \<open>c\<close>, the model
  raises nothing, and the one draw against \<open>loading_rate\<close> starts no rotation. Then for
  every \<open>j\<close> up to \<open>(N - 1) div S\<close> the first \<open>j\<close> iterations of the training loop use
  one pick each and no other draw, so each is served from stream \<open>c\<close> without a reset,
  and they leave its cursor at \<open>j * S\<close>: every committed window moves it by exactly \<open>S\<close>.
  The loop condition finds the stream exhausted after exactly \<open>(N - 1) div S\<close> iterations
  and not before. The pick of the next iteration then runs the loop body once: it uses a
  second pick and the draw, and leaves the cursor of stream \<open>c\<close> at 0 and its two states
  at the zero states.
\<close>

theorem windows_before_exhaustion:
  assumes lens: "c < length (midis_array pool)" "c < length (p_list pool)"
      "c < length (rnn_state1_list pool)" "c < length (rnn_state2_list pool)"
    and N: "nrows (midis_array pool ! c) = N" and p0: "p_list pool ! c = 0"
    and S: "1 \<le> S" "S + 1 \<le> N"
    and ms: "\<And>q. model_step q = Inr (new_states q)"
    and picks: "\<forall>v \<in> set (ints g). v mod length (midis_array pool) = c"
      "(N - 1) div S + 2 \<le> length (ints g)"
    and u: "uniforms g = u # us" "u \<le> loading_rate"
    and fuel: "2 \<le> fuel"
  shows "(\<forall>j \<le> (N - 1) div S.
            \<exists>pool'. training_loop j fuel MF files zero1 zero2 max_files S loading_rate
                       model_step pool g =
                     Some (Inr (pool', g\<lparr>ints := drop j (ints g)\<rparr>))
                  \<and> midis_array pool' = midis_array pool
                  \<and> p_list pool' = (p_list pool)[c := j * S]
                  \<and> exhausted (pool'\<lparr>current_file := int c\<rparr>) S = Inr (j = (N - 1) div S))
       \<and> (\<exists>pool' pool1.
            training_loop ((N - 1) div S) fuel MF files zero1 zero2 max_files S loading_rate
              model_step pool g =
            Some (Inr (pool', g\<lparr>ints := drop ((N - 1) div S) (ints g)\<rparr>))
          \<and> pick_window fuel MF files zero1 zero2 max_files S loading_rate pool'
              (g\<lparr>ints := drop ((N - 1) div S) (ints g)\<rparr>) =
            Some (Inr (pool1, g\<lparr>ints := drop ((N - 1) div S + 2) (ints g), uniforms := us\<rparr>))
          \<and> current_file pool1 = int c
          \<and> midis_array pool1 = midis_array pool
          \<and> p_list pool1 ! c = 0
          \<and> rnn_state1_list pool1 ! c = zero1
          \<and> rnn_state2_list pool1 ! c = zero2)"
proof -
  define k where "k = (N - 1) div S"
  define f where "f = fuel - 2"
  have f: "fuel = Suc (Suc f)" using fuel by (simp add: f_def)
  have len: "k \<le> length (ints g)" using picks(2) unfolding k_def by linarith
  have prefix: "\<exists>pool'. training_loop j fuel MF files zero1 zero2 max_files S loading_rate
                       model_step pool g =
                     Some (Inr (pool', g\<lparr>ints := drop j (ints g)\<rparr>))
                  \<and> midis_array pool' = midis_array pool
                  \<and> p_list pool' = (p_list pool)[c := j * S]
                  \<and> length (rnn_state1_list pool') = length (rnn_state1_list pool)
                  \<and> length (rnn_state2_list pool') = length (rnn_state2_list pool)"
    if "j \<le> k" for j
    unfolding f
    by (rule training_loop_prefix[OF lens N p0 S ms picks(1) len[unfolded k_def]
          that[unfolded k_def]])
  have ex: "exhausted (P\<lparr>current_file := int c\<rparr>) S = Inr (j = k)"
    if "j \<le> k" "midis_array P = midis_array pool" "p_list P = (p_list pool)[c := j * S]"
    for j P
  proof -
    have e: "exhausted (P\<lparr>current_file := int c\<rparr>) S = Inr (N < j * S + S + 1)"
      using exhausted_valid[of "P\<lparr>current_file := int c\<rparr>" c S] lens(1,2) N
      by (simp add: that(2,3))
    have "(N < j * S + S + 1) = (j = k)"
    proof (cases "j = k")
      case True
      then show ?thesis using window_does_not_fit[OF S(1), of N] by (simp add: k_def)
    next
      case False
      then have "Suc j \<le> (N - 1) div S" using that(1) by (simp add: k_def)
      then have "j * S + S + 1 \<le> N" by (rule window_fits[OF S(1) _ S(2)])
      then show ?thesis using False by simp
    qed
    then show ?thesis using e by simp
  qed
  have A: "\<forall>j \<le> k.
            \<exists>pool'. training_loop j fuel MF files zero1 zero2 max_files S loading_rate
                       model_step pool g =
                     Some (Inr (pool', g\<lparr>ints := drop j (ints g)\<rparr>))
                  \<and> midis_array pool' = midis_array pool
                  \<and> p_list pool' = (p_list pool)[c := j * S]
                  \<and> exhausted (pool'\<lparr>current_file := int c\<rparr>) S = Inr (j = k)"
  proof (intro allI impI)
    fix j assume j: "j \<le> k"
    from prefix[OF j] obtain P where P:
      "training_loop j fuel MF files zero1 zero2 max_files S loading_rate model_step pool g =
         Some (Inr (P, g\<lparr>ints := drop j (ints g)\<rparr>))"
      "midis_array P = midis_array pool" "p_list P = (p_list pool)[c := j * S]"
      by auto
    show "\<exists>pool'. training_loop j fuel MF files zero1 zero2 max_files S loading_rate
                       model_step pool g =
                     Some (Inr (pool', g\<lparr>ints := drop j (ints g)\<rparr>))
                  \<and> midis_array pool' = midis_array pool
                  \<and> p_list pool' = (p_list pool)[c := j * S]
                  \<and> exhausted (pool'\<lparr>current_file := int c\<rparr>) S = Inr (j = k)"
      using P ex[OF j P(2,3)] by (intro exI[of _ P]) simp
  qed
  from prefix[of k] obtain P where P:
      "training_loop k fuel MF files zero1 zero2 max_files S loading_rate model_step pool g =
         Some (Inr (P, g\<lparr>ints := drop k (ints g)\<rparr>))"
      "midis_array P = midis_array pool" "p_list P = (p_list pool)[c := k * S]"
      "length (rnn_state1_list P) = length (rnn_state1_list pool)"
      "length (rnn_state2_list P) = length (rnn_state2_list pool)"
    by auto
  have k1: "k < length (ints g)" and k2: "Suc k < length (ints g)"
    using picks(2) unfolding k_def by linarith+
  have tape: "ints (g\<lparr>ints := drop k (ints g)\<rparr>) =
      ints g ! k # ints g ! Suc k # drop (k + 2) (ints g)"
    using k1 k2 by (simp add: Cons_nth_drop_Suc)
  have v: "ints g ! k mod length (midis_array P) = c"
    and w: "ints g ! Suc k mod length (midis_array P) = c"
    using picks(1) k1 k2 by (simp_all add: P(2))
  have pc: "p_list P ! c = k * S" using lens(2) by (simp add: P(3))
  have full: "nrows (midis_array P ! c) < p_list P ! c + S + 1"
    unfolding pc P(2) N k_def by (rule window_does_not_fit[OF S(1)])
  have fit: "S + 1 \<le> nrows (midis_array P ! c)"
    unfolding P(2) N by (rule S(2))
  define P1 where "P1 = P\<lparr>current_file := int c, p_list := (p_list P)[c := 0],
                  rnn_state1_list := (rnn_state1_list P)[c := zero1],
                  rnn_state2_list := (rnn_state2_list P)[c := zero2]\<rparr>"
  have pw: "pick_window fuel MF files zero1 zero2 max_files S loading_rate P
              (g\<lparr>ints := drop k (ints g)\<rparr>) =
            Some (Inr (P1, g\<lparr>ints := drop (k + 2) (ints g), uniforms := us\<rparr>))"
    unfolding f P1_def
    using pick_window_reset[OF tape v w _ _ _ _ _ u(2) full fit, of us f MF files zero1 zero2
            max_files] lens u(1)
    by (simp add: P(2,3,4,5))
  have B: "\<exists>pool' pool1.
            training_loop k fuel MF files zero1 zero2 max_files S loading_rate
              model_step pool g =
            Some (Inr (pool', g\<lparr>ints := drop k (ints g)\<rparr>))
          \<and> pick_window fuel MF files zero1 zero2 max_files S loading_rate pool'
              (g\<lparr>ints := drop k (ints g)\<rparr>) =
            Some (Inr (pool1, g\<lparr>ints := drop (k + 2) (ints g), uniforms := us\<rparr>))
          \<and> current_file pool1 = int c
          \<and> midis_array pool1 = midis_array pool
          \<and> p_list pool1 ! c = 0
          \<and> rnn_state1_list pool1 ! c = zero1
          \<and> rnn_state2_list pool1 ! c = zero2"
    using P(1) pw lens
    by (intro exI[of _ P] exI[of _ P1]) (simp add: P1_def P(2,3,4,5))
  show ?thesis
    using A B unfolding k_def by (rule conjI)
qed

theorem windows_before_exhaustion_witness:
  "(11 - 1) div 3 = (3::nat)
   \<and> (\<exists>pool' pool1.
        training_loop 3 2 (\<lambda>f. Inr \<lparr>file_type = 0, ticks_per_beat = 480, messages = []\<rparr>)
          [''a.mid''] (0::nat) 0 500 3 (99 / 100) (\<lambda>q. Inr (1, 1))
          \<lparr>midis_array = [\<lparr>addr = 0, nrows = 11, ncols = 40\<rparr>],
           midi_times_array = [\<lparr>addr = 440, nrows = 11, ncols = 1\<rparr>],
           p_list = [0], rnn_state1_list = [0], rnn_state2_list = [0],
           loaded_files = None, current_file = 0\<rparr>
          \<lparr>ints = [0, 0, 0, 0, 0], uniforms = [1 / 2]\<rparr> =
        Some (Inr (pool', \<lparr>ints = [0, 0], uniforms = [1 / 2]\<rparr>))
      \<and> p_list pool' = [9]
      \<and> exhausted (pool'\<lparr>current_file := 0\<rparr>) 3 = Inr True
      \<and> pick_window 2 (\<lambda>f. Inr \<lparr>file_type = 0, ticks_per_beat = 480, messages = []\<rparr>)
          [''a.mid''] 0 0 500 3 (99 / 100) pool' \<lparr>ints = [0, 0], uniforms = [1 / 2]\<rparr> =
        Some (Inr (pool1, \<lparr>ints = [], uniforms = []\<rparr>))
      \<and> current_file pool1 = 0
      \<and> p_list pool1 ! 0 = 0
      \<and> rnn_state1_list pool1 ! 0 = 0
      \<and> rnn_state2_list pool1 ! 0 = 0)"
proof -
  let ?MF = "\<lambda>f::string. Inr \<lparr>file_type = 0, ticks_per_beat = 480, messages = []\<rparr> :: error + midi_file"
  let ?pool = "\<lparr>midis_array = [\<lparr>addr = 0, nrows = 11, ncols = 40\<rparr>],
           midi_times_array = [\<lparr>addr = 440, nrows = 11, ncols = 1\<rparr>],
           p_list = [0], rnn_state1_list = [0::nat], rnn_state2_list = [0],
           loaded_files = None, current_file = 0\<rparr>"
  let ?g = "\<lparr>ints = [0, 0, 0, 0, 0], uniforms = [1 / 2]\<rparr>"
  have k: "(11 - 1) div 3 = (3::nat)" by simp
  note w = windows_before_exhaustion
      [of 0 ?pool 11 3 "\<lambda>q. Inr (1, 1)" "\<lambda>q. (1, 1)" ?g "1 / 2" "[]" "99 / 100" 2
          ?MF "[''a.mid'']" 0 0 500]
  have a: "\<forall>j \<le> 3.
            \<exists>pool'. training_loop j 2 ?MF [''a.mid''] 0 0 500 3 (99 / 100) (\<lambda>q. Inr (1, 1)) ?pool ?g =
                     Some (Inr (pool', ?g\<lparr>ints := drop j (ints ?g)\<rparr>))
                  \<and> midis_array pool' = midis_array ?pool
                  \<and> p_list pool' = (p_list ?pool)[0 := j * 3]
                  \<and> exhausted (pool'\<lparr>current_file := int 0\<rparr>) 3 = Inr (j = 3)"
    using w[THEN conjunct1] by (simp only: k) simp
  have b: "\<exists>pool' pool1.
            training_loop 3 2 ?MF [''a.mid''] 0 0 500 3 (99 / 100) (\<lambda>q. Inr (1, 1)) ?pool ?g =
            Some (Inr (pool', ?g\<lparr>ints := drop 3 (ints ?g)\<rparr>))
          \<and> pick_window 2 ?MF [''a.mid''] 0 0 500 3 (99 / 100) pool'
              (?g\<lparr>ints := drop 3 (ints ?g)\<rparr>) =
            Some (Inr (pool1, ?g\<lparr>ints := drop (3 + 2) (ints ?g), uniforms := []\<rparr>))
          \<and> current_file pool1 = int 0
          \<and> midis_array pool1 = midis_array ?pool
          \<and> p_list pool1 ! 0 = 0
          \<and> rnn_state1_list pool1 ! 0 = 0
          \<and> rnn_state2_list pool1 ! 0 = 0"
    using w[THEN conjunct2] by (simp only: k) simp
  from b obtain P P1 where P:
    "training_loop 3 2 ?MF [''a.mid''] 0 0 500 3 (99 / 100) (\<lambda>q. Inr (1, 1)) ?pool ?g =
            Some (Inr (P, ?g\<lparr>ints := drop 3 (ints ?g)\<rparr>))"
    "pick_window 2 ?MF [''a.mid''] 0 0 500 3 (99 / 100) P (?g\<lparr>ints := drop 3 (ints ?g)\<rparr>) =
            Some (Inr (P1, ?g\<lparr>ints := drop (3 + 2) (ints ?g), uniforms := []\<rparr>))"
    "current_file P1 = int 0" "p_list P1 ! 0 = 0" "rnn_state1_list P1 ! 0 = 0"
    "rnn_state2_list P1 ! 0 = 0"
    by blast
  from a[THEN spec, of 3] P(1) have Q: "p_list P = [9]"
    "exhausted (P\<lparr>current_file := 0\<rparr>) 3 = Inr True"
    by auto
  show ?thesis
    using P Q by (intro conjI k exI[of _ P] exI[of _ P1]) simp_all
qed

section \<open>The rotation block at concrete pools\<close>

text \<open>
  C6 at the notebook's own start: one resident file, \<open>loaded_files\<close> never assigned, a
  type-0 file among the candidates. The rotation block raises \<^verbatim>\<open>NameError\<close> when the loop
  condition reads \<open>loaded_files\<close>. With \<open>loaded_files\<close> bound to the empty list the block
  ends, but it appends a cursor and two states only: the arrays are as before, and
  \<open>current_file\<close> is the old last stream. And since \<open>file_loaded\<close> is never set back, the
  loop can end on a file that the format check refused.
\<close>

theorem rotate_admits_nothing:
  "rotate (\<lambda>f. Inr \<lparr>file_type = 0, ticks_per_beat = 480, messages = []\<rparr>)
     [''a.mid'', ''b.mid''] (0::nat) 0 500
     \<lparr>midis_array = [\<lparr>addr = 0, nrows = 100, ncols = 40\<rparr>],
      midi_times_array = [\<lparr>addr = 4000, nrows = 100, ncols = 1\<rparr>],
      p_list = [0], rnn_state1_list = [0], rnn_state2_list = [0],
      loaded_files = None, current_file = 0\<rparr> [1] = Some (Inl NameError)
   \<and> rotate (\<lambda>f. Inr \<lparr>file_type = 0, ticks_per_beat = 480, messages = []\<rparr>)
     [''a.mid'', ''b.mid''] (0::nat) 0 500
     \<lparr>midis_array = [\<lparr>addr = 0, nrows = 100, ncols = 40\<rparr>],
      midi_times_array = [\<lparr>addr = 4000, nrows = 100, ncols = 1\<rparr>],
      p_list = [75], rnn_state1_list = [7], rnn_state2_list = [7],
      loaded_files = Some [], current_file = 0\<rparr> [1] =
     Some (Inr (\<lparr>midis_array = [\<lparr>addr = 0, nrows = 100, ncols = 40\<rparr>],
      midi_times_array = [\<lparr>addr = 4000, nrows = 100, ncols = 1\<rparr>],
      p_list = [75, 0], rnn_state1_list = [7, 0], rnn_state2_list = [7, 0],
      loaded_files = Some [], current_file = 0\<rparr>, []))
   \<and> is_midi_0 (\<lambda>f. if f = ''a.mid'' then Inl IOError
                     else Inr \<lparr>file_type = 0, ticks_per_beat = 480, messages = []\<rparr>)
        ([''a.mid'', ''b.mid''] ! 0) = Inr False
   \<and> select_loop (\<lambda>f. if f = ''a.mid'' then Inl IOError
                       else Inr \<lparr>file_type = 0, ticks_per_beat = 480, messages = []\<rparr>)
        [''a.mid'', ''b.mid''] (Some [1]) False 0 [1, 0] = Some (Inr (0, []))"
  by code_simp


section \<open>The rotation block while \<open>loaded_files\<close> is unbound\<close>

declare select_loop.simps [simp del]




section \<open>What \<^verbatim>\<open>extract_samples\<close> writes and returns\<close>

lemma extract_samples_frame:
  assumes "k < next_free h"
  shows "mem (snd (extract_samples ma mta p S cf nm nt d h)) k = mem h k"
  using assms
  by (auto simp: extract_samples_def astype_def iadd_def maximum0_def set_row_zero_def
        reshape_def Let_def split: option.splits sum.splits if_splits prod.splits)


lemma slice_reshape_ok:
  assumes "ncols a = w" "lo + S \<le> nrows a"
  shows "reshape S w (slice_rows lo (lo + S) a) = Inr \<lparr>addr = addr a + lo * w, nrows = S, ncols = w\<rparr>"
  using assms by (simp add: reshape_def slice_rows_def Let_def min_def max_def)

lemma forty: "(5::nat) * 8 = 40" by simp

lemma extract_samples_unfold:
  assumes c: "cf = int c" "c < length ma" "c < length mta"
    and w: "ncols (ma ! c) = 40" "ncols (mta ! c) = 1"
    and n: "p + S + 1 \<le> nrows (ma ! c)" "p + S + 1 \<le> nrows (mta ! c)"
    and S: "1 \<le> S"
  shows "extract_samples ma mta p S cf nm nt d h =
     (let (im0, h1) = astype \<lparr>addr = addr (ma ! c) + p * 40, nrows = S, ncols = 40\<rparr> h;
          (it0, h2) = astype \<lparr>addr = addr (mta ! c) + p, nrows = S, ncols = 1\<rparr> h1;
          h3 = iadd im0 nm h2;
          h4 = iadd it0 nt h3;
          (im, h5) = maximum0 im0 h4;
          (it, h6) = maximum0 it0 h5
      in case set_row_zero im (d mod S) h6 of
           Inl e \<Rightarrow> (Inl e, h6)
         | Inr h7 \<Rightarrow>
             (case set_row_zero it (d mod S) h7 of
                Inl e \<Rightarrow> (Inl e, h7)
              | Inr h8 \<Rightarrow>
                  (Inr (im, it, \<lparr>addr = addr (ma ! c) + (p + 1) * 40, nrows = S, ncols = 40\<rparr>,
                        \<lparr>addr = addr (mta ! c) + (p + 1), nrows = S, ncols = 1\<rparr>), h8)))"
proof -
  have r1: "reshape S 40 (slice_rows p (p + S) (ma ! c)) =
      Inr \<lparr>addr = addr (ma ! c) + p * 40, nrows = S, ncols = 40\<rparr>"
    using slice_reshape_ok[OF w(1), of p S] n(1) by simp
  have r2: "reshape S 1 (slice_rows p (p + S) (mta ! c)) =
      Inr \<lparr>addr = addr (mta ! c) + p, nrows = S, ncols = 1\<rparr>"
    using slice_reshape_ok[OF w(2), of p S] n(2) by simp
  have r3: "reshape S 40 (slice_rows (p + 1) (p + S + 1) (ma ! c)) =
      Inr \<lparr>addr = addr (ma ! c) + (p + 1) * 40, nrows = S, ncols = 40\<rparr>"
    using slice_reshape_ok[OF w(1), of "p + 1" S] n(1) by (simp add: add.commute add.left_commute)
  have r4: "reshape S 1 (slice_rows (p + 1) (p + S + 1) (mta ! c)) =
      Inr \<lparr>addr = addr (mta ! c) + (p + 1), nrows = S, ncols = 1\<rparr>"
    using slice_reshape_ok[OF w(2), of "p + 1" S] n(2) by (simp add: add.commute add.left_commute)
  have i1: "py_index ma (int c) = Some c" "py_index mta (int c) = Some c"
    using c(2,3) by (simp_all add: py_index_def)
  have S0: "S \<noteq> 0" using S by simp
  show ?thesis
    unfolding extract_samples_def forty c(1) i1 option.case r1 r2 r3 r4 sum.case
    by (simp only: S0 if_False Let_def)
qed


lemma extract_samples_arrays:
  assumes c: "cf = int c" "c < length ma" "c < length mta"
    and w: "ncols (ma ! c) = 40" "ncols (mta ! c) = 1"
    and n: "p + S + 1 \<le> nrows (ma ! c)" "p + S + 1 \<le> nrows (mta ! c)"
    and S: "1 \<le> S"
  shows "fst (extract_samples ma mta p S cf nm nt d h) =
     Inr (\<lparr>addr = next_free h + 41 * S, nrows = S, ncols = 40\<rparr>,
          \<lparr>addr = next_free h + 81 * S, nrows = S, ncols = 1\<rparr>,
          \<lparr>addr = addr (ma ! c) + (p + 1) * 40, nrows = S, ncols = 40\<rparr>,
          \<lparr>addr = addr (mta ! c) + (p + 1), nrows = S, ncols = 1\<rparr>)"
proof -
  have lt: "d mod S < S" using S by simp
  show ?thesis
    unfolding extract_samples_unfold[OF assms]
    using lt by (simp add: astype_def maximum0_def iadd_def set_row_zero_def Let_def)
qed

lemma rows_frame:
  assumes "\<And>k. k < b \<Longrightarrow> mem h' k = mem h k" "addr a + nrows a * ncols a \<le> b"
  shows "rows h' a = rows h a"
proof -
  have "row h' a i = row h a i" if "i < nrows a" for i
  proof -
    have "addr a + i * ncols a + j < b" if "j < ncols a" for j
    proof -
      have "Suc i * ncols a \<le> nrows a * ncols a"
        using \<open>i < nrows a\<close> by (intro mult_le_mono1) simp
      then show ?thesis using that assms(2) by simp
    qed
    then show ?thesis by (simp add: row_def assms(1))
  qed
  then show ?thesis by (simp add: rows_def)
qed

text \<open>
  C10. Whatever the arguments, and whether the call returns or raises,
  \<^verbatim>\<open>extract_samples\<close> writes to no address that was allocated before the call: every array
  that lies in that memory, so every stored record and time array, reads the same rows
  after the call as before. When the window fits, the two input arrays returned are new
  arrays above the old allocation pointer, and the two targets are views of the stored
  arrays.
\<close>

theorem extract_samples_leaves_stored_arrays:
  "(\<forall>k. k < next_free h \<longrightarrow>
        mem (snd (extract_samples ma mta p S cf nm nt d h)) k = mem h k)
   \<and> (\<forall>a::ndarray. addr a + nrows a * ncols a \<le> next_free h \<longrightarrow>
        rows (snd (extract_samples ma mta p S cf nm nt d h)) a = rows h a)
   \<and> (cf = int c \<and> c < length ma \<and> c < length mta \<and> ncols (ma ! c) = 40 \<and> ncols (mta ! c) = 1
        \<and> p + S + 1 \<le> nrows (ma ! c) \<and> p + S + 1 \<le> nrows (mta ! c) \<and> 1 \<le> S \<longrightarrow>
      fst (extract_samples ma mta p S cf nm nt d h) =
        Inr (\<lparr>addr = next_free h + 41 * S, nrows = S, ncols = 40\<rparr>,
             \<lparr>addr = next_free h + 81 * S, nrows = S, ncols = 1\<rparr>,
             \<lparr>addr = addr (ma ! c) + (p + 1) * 40, nrows = S, ncols = 40\<rparr>,
             \<lparr>addr = addr (mta ! c) + (p + 1), nrows = S, ncols = 1\<rparr>))"
proof (intro conjI allI impI)
  fix k assume "k < next_free h"
  then show "mem (snd (extract_samples ma mta p S cf nm nt d h)) k = mem h k"
    by (rule extract_samples_frame)
next
  fix a :: ndarray assume "addr a + nrows a * ncols a \<le> next_free h"
  then show "rows (snd (extract_samples ma mta p S cf nm nt d h)) a = rows h a"
    by (intro rows_frame[OF extract_samples_frame])
next
  assume "cf = int c \<and> c < length ma \<and> c < length mta \<and> ncols (ma ! c) = 40 \<and> ncols (mta ! c) = 1
        \<and> p + S + 1 \<le> nrows (ma ! c) \<and> p + S + 1 \<le> nrows (mta ! c) \<and> 1 \<le> S"
  then show "fst (extract_samples ma mta p S cf nm nt d h) =
        Inr (\<lparr>addr = next_free h + 41 * S, nrows = S, ncols = 40\<rparr>,
             \<lparr>addr = next_free h + 81 * S, nrows = S, ncols = 1\<rparr>,
             \<lparr>addr = addr (ma ! c) + (p + 1) * 40, nrows = S, ncols = 40\<rparr>,
             \<lparr>addr = addr (mta ! c) + (p + 1), nrows = S, ncols = 1\<rparr>)"
    by (intro extract_samples_arrays) simp_all
qed

theorem extract_samples_leaves_stored_arrays_witness:
  "rows (snd (extract_samples [example_midis] [example_times] 1 2 0 (\<lambda>i. 1 / 4) (\<lambda>i. - 1 / 4) 5
            example_memory)) example_midis = rows example_memory example_midis
   \<and> rows (snd (extract_samples [example_midis] [example_times] 1 2 0 (\<lambda>i. 1 / 4) (\<lambda>i. - 1 / 4) 5
            example_memory)) example_times = [[0], [0], [0]]
   \<and> mem (snd (extract_samples [example_midis] [example_times] 1 2 0 (\<lambda>i. 1 / 4) (\<lambda>i. - 1 / 4) 5
            example_memory)) 39 = 1
   \<and> fst (extract_samples [example_midis] [example_times] 7 2 0 (\<lambda>i. 1 / 4) (\<lambda>i. - 1 / 4) 5
            example_memory) = Inl ValueError
   \<and> rows (snd (extract_samples [example_midis] [example_times] 7 2 0 (\<lambda>i. 1 / 4) (\<lambda>i. - 1 / 4) 5
            example_memory)) example_times = [[0], [0], [0]]"
proof -
  have u: "[0..<3] = [0, 1, 2]" by (simp add: upt_rec)
  have e: "fst (extract_samples [example_midis] [example_times] 7 2 0 (\<lambda>i. 1 / 4) (\<lambda>i. - 1 / 4) 5
            example_memory) = Inl ValueError"
    by (simp add: extract_samples_def py_index_def reshape_def slice_rows_def)
  show ?thesis
    using extract_samples_leaves_stored_arrays
            [where ma = "[example_midis]" and mta = "[example_times]" and p = 1 and S = 2
               and cf = 0 and h = example_memory and d = 5
               and nm = "\<lambda>i. 1 / 4" and nt = "\<lambda>i. - 1 / 4"]
          extract_samples_leaves_stored_arrays
            [where ma = "[example_midis]" and mta = "[example_times]" and p = 7 and S = 2
               and cf = 0 and h = example_memory and d = 5
               and nm = "\<lambda>i. 1 / 4" and nt = "\<lambda>i. - 1 / 4"]
          e
    by (simp add: rows_def row_def u)
qed

end
